theory Spec2Isabelle
  imports Main "HOL-Library.Sublist" "HOL-Library.Word"
begin

section \<open>The development-mode engine of pkg/start/gen2.go\<close>

text \<open>
  A shallow embedding of the parts of \<^verbatim>\<open>pkg/start/gen2.go\<close> that decide which local
  directories are synchronised, how a build is awaited, how a batch of file changes is pushed to
  the running processes and how the log stream is demultiplexed. Strings are byte lists, a Go
  \<^verbatim>\<open>error\<close> is a value of type \<open>error\<close> (the interface value \<^verbatim>\<open>nil\<close> is \<open>None\<close>), and every
  call that leaves the process (the provider, the file system, the docker command line) is an
  explicit argument holding the outcome of that call.
\<close>

subsection \<open>Errors\<close>

text \<open>
  An error is known by its message. The one distinction the code draws between errors is
  \<^verbatim>\<open>os.IsNotExist\<close>, so a file-system error saying that the path does not exist has a constructor
  of its own. \<^verbatim>\<open>errors.WithStack\<close> keeps message and kind, hence it is the identity here.
\<close>

datatype error = Err string | ErrNotExist string

fun errorText :: "error \<Rightarrow> string" where
  "errorText (Err m) = m"
| "errorText (ErrNotExist m) = m"

fun os_IsNotExist :: "error \<Rightarrow> bool" where
  "os_IsNotExist (ErrNotExist m) = True"
| "os_IsNotExist (Err m) = False"

subsection \<open>Go library functions used by the code\<close>

text \<open>\<^verbatim>\<open>strings.HasPrefix(s, p)\<close>.\<close>

definition strings_HasPrefix :: "string \<Rightarrow> string \<Rightarrow> bool" where
  "strings_HasPrefix s p = prefix p s"

text \<open>\<^verbatim>\<open>strings.Contains(s, sub)\<close>: some suffix of \<open>s\<close> starts with \<open>sub\<close>.\<close>

fun strings_Contains :: "string \<Rightarrow> string \<Rightarrow> bool" where
  "strings_Contains [] sub = (sub = [])"
| "strings_Contains (c # cs) sub = (prefix sub (c # cs) \<or> strings_Contains cs sub)"

text \<open>
  \<^verbatim>\<open>strings.Replace(s, old, new, -1)\<close>: every non-overlapping occurrence of \<open>old\<close>, found from
  left to right, is replaced. With an empty \<open>old\<close> Go inserts \<open>new\<close> in front of the string and
  after every rune; that branch is written for one-byte runes and is never reached from
  \<open>replaceEnv\<close>, whose patterns start with a dollar sign.
\<close>

function strings_Replace :: "string \<Rightarrow> string \<Rightarrow> string \<Rightarrow> string" where
  "strings_Replace s old new =
     (if old = [] then new @ concat (map (\<lambda>c. c # new) s)
      else if prefix old s then new @ strings_Replace (drop (length old) s) old new
      else (case s of [] \<Rightarrow> [] | c # cs \<Rightarrow> c # strings_Replace cs old new))"
  by pat_completeness auto
termination
  by (relation "measure (\<lambda>(s, old, new). length s)") (auto simp: prefix_def)

declare strings_Replace.simps [simp del]

text \<open>
  \<^verbatim>\<open>strings.TrimSpace(s)\<close> removes the leading and the trailing white space of Unicode.
  \<open>spaceRunes\<close> lists the UTF-8 encodings of the runes for which \<^verbatim>\<open>unicode.IsSpace\<close> holds:
  U+0009 to U+000D, U+0020, U+0085, U+00A0, U+1680, U+2000 to U+200A, U+2028, U+2029, U+202F,
  U+205F and U+3000.
\<close>

definition spaceRunes :: "string list" where
  "spaceRunes =
     [[CHR 0x09], [CHR 0x0A], [CHR 0x0B], [CHR 0x0C], [CHR 0x0D], [CHR 0x20],
      [CHR 0xC2, CHR 0x85], [CHR 0xC2, CHR 0xA0], [CHR 0xE1, CHR 0x9A, CHR 0x80],
      [CHR 0xE2, CHR 0x80, CHR 0x80], [CHR 0xE2, CHR 0x80, CHR 0x81],
      [CHR 0xE2, CHR 0x80, CHR 0x82], [CHR 0xE2, CHR 0x80, CHR 0x83],
      [CHR 0xE2, CHR 0x80, CHR 0x84], [CHR 0xE2, CHR 0x80, CHR 0x85],
      [CHR 0xE2, CHR 0x80, CHR 0x86], [CHR 0xE2, CHR 0x80, CHR 0x87],
      [CHR 0xE2, CHR 0x80, CHR 0x88], [CHR 0xE2, CHR 0x80, CHR 0x89],
      [CHR 0xE2, CHR 0x80, CHR 0x8A], [CHR 0xE2, CHR 0x80, CHR 0xA8],
      [CHR 0xE2, CHR 0x80, CHR 0xA9], [CHR 0xE2, CHR 0x80, CHR 0xAF],
      [CHR 0xE2, CHR 0x81, CHR 0x9F], [CHR 0xE3, CHR 0x80, CHR 0x80]]"

definition runeAt :: "string list \<Rightarrow> string \<Rightarrow> string option" where
  "runeAt encs s = find (\<lambda>p. p \<noteq> [] \<and> prefix p s) encs"

function trimLeading :: "string list \<Rightarrow> string \<Rightarrow> string" where
  "trimLeading encs s =
     (case runeAt encs s of
        None \<Rightarrow> s
      | Some p \<Rightarrow> trimLeading encs (drop (length p) s))"
  by pat_completeness auto
termination
  by (relation "measure (\<lambda>(encs, s). length s)")
     (auto simp: runeAt_def find_Some_iff prefix_def)

declare trimLeading.simps [simp del]

definition strings_TrimSpace :: "string \<Rightarrow> string" where
  "strings_TrimSpace s =
     rev (trimLeading (map rev spaceRunes) (rev (trimLeading spaceRunes s)))"

text \<open>
  The lexical path functions of \<^verbatim>\<open>path/filepath\<close>, for the slash-separated paths of Unix.
  \<open>splitSlash\<close> is \<^verbatim>\<open>strings.Split(s, "/")\<close> and \<open>joinSlash\<close> is \<^verbatim>\<open>strings.Join(elems, "/")\<close>.
\<close>

fun splitSlash :: "string \<Rightarrow> string list" where
  "splitSlash [] = [[]]"
| "splitSlash (c # cs) =
     (if c = CHR ''/'' then [] # splitSlash cs
      else (case splitSlash cs of
              [] \<Rightarrow> [[c]]
            | e # es \<Rightarrow> (c # e) # es))"

fun joinSlash :: "string list \<Rightarrow> string" where
  "joinSlash [] = []"
| "joinSlash [e] = e"
| "joinSlash (e # es) = e @ CHR ''/'' # joinSlash es"

definition filepath_IsAbs :: "string \<Rightarrow> bool" where
  "filepath_IsAbs path = strings_HasPrefix path ''/''"

text \<open>
  \<^verbatim>\<open>filepath.Clean\<close>: empty elements and \<^verbatim>\<open>.\<close> are dropped; \<^verbatim>\<open>..\<close> removes the element written
  before it, is dropped at the root, and is kept at the front of a path that is not rooted.
  \<open>out\<close> holds the elements written so far.
\<close>

fun cleanElems :: "bool \<Rightarrow> string list \<Rightarrow> string list \<Rightarrow> string list" where
  "cleanElems rooted out [] = out"
| "cleanElems rooted out (e # es) =
     (if e = [] \<or> e = ''.'' then cleanElems rooted out es
      else if e = ''..'' then
        (if out \<noteq> [] \<and> last out \<noteq> ''..'' then cleanElems rooted (butlast out) es
         else if rooted then cleanElems rooted out es
         else cleanElems rooted (out @ [''..'']) es)
      else cleanElems rooted (out @ [e]) es)"

definition filepath_Clean :: "string \<Rightarrow> string" where
  "filepath_Clean path =
     (if path = [] then ''.''
      else
        (let rooted = (hd path = CHR ''/'');
             out = cleanElems rooted [] (splitSlash path)
         in if rooted then CHR ''/'' # joinSlash out
            else if out = [] then ''.''
            else joinSlash out))"

text \<open>\<^verbatim>\<open>filepath.Join\<close>: the elements from the first non-empty one on, joined and cleaned.\<close>

definition filepath_Join :: "string list \<Rightarrow> string" where
  "filepath_Join elem =
     (case dropWhile (\<lambda>e. e = []) elem of
        [] \<Rightarrow> []
      | e # es \<Rightarrow> filepath_Clean (joinSlash (e # es)))"

text \<open>
  \<^verbatim>\<open>filepath.Rel(basepath, targpath)\<close>. Both paths are cleaned; equal paths give \<^verbatim>\<open>.\<close>; a rooted
  and an unrooted path cannot be related. \<open>relElems\<close> walks the elements of both paths while they
  agree. Where they stop agreeing, a base element \<^verbatim>\<open>..\<close> is an error, also when the target has
  no element left: the name of that directory cannot be known from the paths. Otherwise every
  base element left is answered by one \<^verbatim>\<open>..\<close>, followed by what is left of the target.
\<close>

definition relError :: "string \<Rightarrow> string \<Rightarrow> error" where
  "relError basepath targpath =
     Err (''Rel: can't make '' @ targpath @ '' relative to '' @ basepath)"

fun relElems :: "error \<Rightarrow> string list \<Rightarrow> string list \<Rightarrow> error + string" where
  "relElems err [] ts = Inr (joinSlash ts)"
| "relElems err (b # bs) [] =
     (if b = ''..'' then Inl err
      else Inr (joinSlash (replicate (Suc (length bs)) ''..'')))"
| "relElems err (b # bs) (t # ts) =
     (if b = t then relElems err bs ts
      else if b = ''..'' then Inl err
      else Inr (joinSlash (replicate (Suc (length bs)) ''..'' @ t # ts)))"

definition pathElems :: "string \<Rightarrow> string list" where
  "pathElems path = filter (\<lambda>e. e \<noteq> []) (splitSlash path)"

definition filepath_Rel :: "string \<Rightarrow> string \<Rightarrow> error + string" where
  "filepath_Rel basepath targpath =
     (let base = filepath_Clean basepath;
          targ = filepath_Clean targpath
      in if targ = base then Inr ''.''
         else
           (let base' = (if base = ''.'' then [] else base)
            in if filepath_IsAbs base' \<noteq> filepath_IsAbs targ
               then Inl (relError basepath targpath)
               else relElems (relError basepath targpath) (pathElems base') (pathElems targ)))"

subsection \<open>Environment substitution\<close>

text \<open>
  \<^verbatim>\<open>replaceEnv\<close> ranges over a Go map, whose iteration order is not specified. The second
  argument is the list of the map's entries in the order in which that \<^verbatim>\<open>range\<close> visits them.
  For each entry the \<^verbatim>\<open>${k}\<close> form is replaced first, then the \<^verbatim>\<open>$k\<close> form.
\<close>

fun replaceEnv :: "string \<Rightarrow> (string \<times> string) list \<Rightarrow> string" where
  "replaceEnv s [] = s"
| "replaceEnv s ((k, v) # env) =
     replaceEnv (strings_Replace (strings_Replace s (''${'' @ k @ ''}'') v) (''$'' @ k) v) env"

subsection \<open>Build sources\<close>

record buildSource =
  Local :: string
  Remote :: string

text \<open>
  The state \<^verbatim>\<open>buildSources\<close> carries from line to line of the Dockerfile: the sources found
  (\<^verbatim>\<open>bs\<close>), the environment (\<^verbatim>\<open>env\<close>) and the working directory (\<^verbatim>\<open>wd\<close>).
\<close>

record scanState =
  sources :: "buildSource list"
  environ :: "string \<rightharpoonup> string"
  workdir :: string

text \<open>
  The three calls the \<^verbatim>\<open>FROM\<close> case makes outside the function, each from the image name:
  \<^verbatim>\<open>docker inspect\<close> printing the configured environment as JSON, \<^verbatim>\<open>json.Unmarshal\<close> of that
  output into a list of strings, and \<^verbatim>\<open>docker inspect\<close> printing the configured working
  directory.
\<close>

record imageInspector =
  inspectEnv :: "string \<Rightarrow> error + string"
  unmarshalStrings :: "string \<Rightarrow> error + string list"
  inspectWorkingDir :: "string \<Rightarrow> error + string"

text \<open>
  \<^verbatim>\<open>strings.SplitN(e, "=", 2)\<close> has two parts exactly when \<open>e\<close> holds an equals sign: what
  stands before the first one, and what follows it.
\<close>

definition splitEquals :: "string \<Rightarrow> (string \<times> string) option" where
  "splitEquals e =
     (if CHR ''='' \<in> set e
      then Some (takeWhile (\<lambda>c. c \<noteq> CHR ''='') e, tl (dropWhile (\<lambda>c. c \<noteq> CHR ''='') e))
      else None)"

text \<open>The loop over the image's entries (lines 673 to 679): each one is assigned to the map.\<close>

fun buildSources_FROM_env :: "string list \<Rightarrow> (string \<rightharpoonup> string) \<Rightarrow> (string \<rightharpoonup> string)" where
  "buildSources_FROM_env [] env = env"
| "buildSources_FROM_env (e # ee) env =
     buildSources_FROM_env ee (case splitEquals e of Some (k, v) \<Rightarrow> env(k \<mapsto> v) | None \<Rightarrow> env)"

text \<open>The case \<^verbatim>\<open>ENV\<close> of the switch, on the fields of the line.\<close>

definition buildSources_ENV :: "string list \<Rightarrow> scanState \<Rightarrow> scanState" where
  "buildSources_ENV parts st =
     (if length parts > 2 then st\<lparr>environ := (environ st)(parts ! 1 \<mapsto> parts ! 2)\<rparr> else st)"

text \<open>
  The case \<^verbatim>\<open>FROM\<close>. \<open>Inl\<close> is the error \<^verbatim>\<open>buildSources\<close> returns; \<open>Inr\<close> is the state with which
  the loop goes on to the next line. A failure of the first inspection is the \<^verbatim>\<open>continue\<close>
  of line 666: the state stays as it was.
\<close>

definition buildSources_FROM :: "imageInspector \<Rightarrow> string list \<Rightarrow> scanState \<Rightarrow> error + scanState" where
  "buildSources_FROM insp parts st =
     (if length parts > 1 then
        (case inspectEnv insp (parts ! 1) of
           Inl e \<Rightarrow> Inr st
         | Inr data \<Rightarrow>
            (case unmarshalStrings insp data of
               Inl e \<Rightarrow> Inl e
             | Inr ee \<Rightarrow>
                (case inspectWorkingDir insp (parts ! 1) of
                   Inl e \<Rightarrow> Inl e
                 | Inr out \<Rightarrow>
                     Inr (st\<lparr>environ := buildSources_FROM_env ee (environ st),
                             workdir := strings_TrimSpace out\<rparr>))))
      else Inr st)"

text \<open>
  The deduplication (lines 717 to 751). \<open>buildSources_contained rel a later\<close> is the inner
  loop for the entry \<open>a\<close>, with \<open>later\<close> the entries that follow it: \<open>Inr True\<close> when the loop leaves with
  \<^verbatim>\<open>contained\<close> set, \<open>Inl\<close> when a \<^verbatim>\<open>filepath.Rel\<close> fails. \<open>rel\<close> is \<^verbatim>\<open>filepath.Rel\<close>.
\<close>

fun buildSources_contained ::
  "(string \<Rightarrow> string \<Rightarrow> error + string) \<Rightarrow> buildSource \<Rightarrow> buildSource list \<Rightarrow> error + bool"
where
  "buildSources_contained rel a [] = Inr False"
| "buildSources_contained rel a (b # later) =
     (if strings_HasPrefix (Local a) (Local b) then
        (if Remote a = Remote b then Inr True
         else (case rel (Local b) (Local a) of
                 Inl e \<Rightarrow> Inl e
               | Inr rl \<Rightarrow>
                  (case rel (Remote b) (Remote a) of
                     Inl e \<Rightarrow> Inl e
                   | Inr rr \<Rightarrow> if rl = rr then Inr True else buildSources_contained rel a later)))
      else buildSources_contained rel a later)"

fun buildSources_dedup ::
  "(string \<Rightarrow> string \<Rightarrow> error + string) \<Rightarrow> buildSource list \<Rightarrow> error + buildSource list"
where
  "buildSources_dedup rel [] = Inr []"
| "buildSources_dedup rel (a # later) =
     (case buildSources_contained rel a later of
        Inl e \<Rightarrow> Inl e
      | Inr isContained \<Rightarrow>
         (case buildSources_dedup rel later of
            Inl e \<Rightarrow> Inl e
          | Inr bss \<Rightarrow> Inr (if isContained then bss else a # bss)))"

text \<open>
  \<open>b\<close> is a strict prefix of \<open>a\<close>. The local paths are resolved by \<^verbatim>\<open>filepath.Abs\<close> and a directory
  ends with a slash, so a directory that holds the path \<open>a\<close> is a prefix of it as a string.
\<close>

definition strictPrefixPath :: "string \<Rightarrow> string \<Rightarrow> bool" where
  "strictPrefixPath b a = (strings_HasPrefix a b \<and> a \<noteq> b)"

subsection \<open>Waiting for a build\<close>

text \<open>
  \<^verbatim>\<open>waitForBuild\<close> blocks in a \<^verbatim>\<open>select\<close> on two channels. The argument lists what the loop
  receives, in order: \<open>BuildCtxDone\<close> when the context's channel is chosen, \<open>BuildTick r\<close> when the
  ticker's is, with \<open>r\<close> the answer of \<^verbatim>\<open>Provider.BuildGet\<close> to the poll made on that tick (an
  error, or the \<^verbatim>\<open>Status\<close> of the build). The counter is the number of polls made so far.
  The result \<open>None\<close> is a loop still blocked in the \<^verbatim>\<open>select\<close> after the listed events;
  \<open>Some (r, n)\<close> is a return of \<open>r\<close> after \<open>n\<close> polls.
\<close>

datatype buildEvent = BuildCtxDone | BuildTick "error + string"

fun waitForBuild :: "buildEvent list \<Rightarrow> nat \<Rightarrow> (error option \<times> nat) option" where
  "waitForBuild [] n = None"
| "waitForBuild (BuildCtxDone # evs) n = Some (None, n)"
| "waitForBuild (BuildTick (Inl e) # evs) n = Some (Some e, Suc n)"
| "waitForBuild (BuildTick (Inr status) # evs) n =
     (if status = ''created'' \<or> status = ''running'' then waitForBuild evs (Suc n)
      else if status = ''complete'' then Some (None, Suc n)
      else if status = ''failed'' then Some (Some (Err ''build failed''), Suc n)
      else Some (Some (Err (''unknown build status: '' @ status)), Suc n))"

text \<open>A tick on which the provider reports the given status.\<close>

definition polled :: "string \<Rightarrow> buildEvent" where
  "polled status = BuildTick (Inr status)"

subsection \<open>The session: \<^verbatim>\<open>Start2\<close>\<close>

record app =
  appGeneration :: string
  appRelease :: string

record build =
  buildId :: string
  buildRelease :: string

record options2 =
  optApp :: string
  optBuild :: bool
  optExternal :: bool
  optManifest :: string

text \<open>
  The outcome of every call \<^verbatim>\<open>Start2\<close> makes, in the order of the source. A field of type
  \<open>error option\<close> is a call of which only success or failure matters to the control flow.
  \<open>ctxDoneAtEntry\<close> and \<open>ctxDoneAfterBuild\<close> say whether the context's channel is closed when the
  first and the second non-blocking \<^verbatim>\<open>select\<close> look at it; \<open>ctxEverDone\<close> says whether the final
  receive from it ever returns. \<open>buildCreated\<close> is the result of \<^verbatim>\<open>opts.buildCreate\<close>.
\<close>

record start2Calls =
  ctxDoneAtEntry :: bool
  appGet :: "error + app"
  appCreate :: "error option"
  readManifest :: "error option"
  appEnvironment :: "error option"
  manifestLoad :: "error option"
  manifestValidate :: "error option"
  buildCreated :: "error + build"
  ctxDoneAfterBuild :: bool
  promoteDevelopment :: "error option"
  getwd :: "error option"
  waitForAppRunning :: "error option"
  ctxEverDone :: bool
  appGetAtStop :: "error + app"
  promoteAtStop :: "error option"

text \<open>A function that returns a Go \<^verbatim>\<open>error\<close>, or never returns.\<close>

datatype outcome = Returned "error option" | Blocked

text \<open>Lines 69 to 78: the application exists with generation 2 or 3, or it is created.\<close>

definition Start2_app :: "start2Calls \<Rightarrow> error option" where
  "Start2_app w =
     (case appGet w of
        Inl e \<Rightarrow> appCreate w
      | Inr a \<Rightarrow>
          if appGeneration a \<noteq> ''2'' \<and> appGeneration a \<noteq> ''3''
          then Some (Err (''invalid generation: '' @ appGeneration a))
          else None)"

text \<open>
  Lines 147 to 193: the tasks are started (they do not change what is returned), the session
  waits for the application, then for the cancellation, and puts the release back.
\<close>

definition Start2_session :: "start2Calls \<Rightarrow> outcome" where
  "Start2_session w =
     (case getwd w of
        Some e \<Rightarrow> Returned (Some e)
      | None \<Rightarrow>
         (case waitForAppRunning w of
            Some e \<Rightarrow> Returned (Some e)
          | None \<Rightarrow>
              if \<not> ctxEverDone w then Blocked
              else (case appGetAtStop w of
                      Inl e \<Rightarrow> Returned None
                    | Inr a \<Rightarrow>
                        if appRelease a \<noteq> [] then Returned (promoteAtStop w)
                        else Returned None)))"

definition Start2 :: "options2 \<Rightarrow> start2Calls \<Rightarrow> outcome" where
  "Start2 opts w =
     (if ctxDoneAtEntry w then Returned None
      else if optApp opts = [] then Returned (Some (Err ''app required''))
      else (case Start2_app w of
        Some e \<Rightarrow> Returned (Some e)
      | None \<Rightarrow>
      (case readManifest w of
        Some e \<Rightarrow> Returned (Some e)
      | None \<Rightarrow>
      (case appEnvironment w of
        Some e \<Rightarrow> Returned (Some e)
      | None \<Rightarrow>
      (case manifestLoad w of
        Some e \<Rightarrow> Returned (Some e)
      | None \<Rightarrow>
      (case manifestValidate w of
        Some e \<Rightarrow> Returned (Some e)
      | None \<Rightarrow>
          if optBuild opts then
            (case buildCreated w of
               Inl e \<Rightarrow> Returned (Some e)
             | Inr b \<Rightarrow>
                 if ctxDoneAfterBuild w then Returned None
                 else (case promoteDevelopment w of
                         Some e \<Rightarrow> Returned (Some e)
                       | None \<Rightarrow> Start2_session w))
          else Start2_session w))))))"

subsection \<open>Effects\<close>

text \<open>
  What a task does to the two things it shares with the others: \<open>Written key text\<close> is
  \<^verbatim>\<open>pw.Writef(key, ...)\<close> with the formatted text, \<open>Sent err\<close> is a send of \<open>err\<close> on the error
  channel that \<^verbatim>\<open>handleErrors\<close> drains.
\<close>

datatype effect = Written string string | Sent error


text \<open>The verb \<^verbatim>\<open>%d\<close> of \<^verbatim>\<open>fmt\<close> on a length.\<close>

definition digitChar :: "nat \<Rightarrow> char" where
  "digitChar n = ''0123456789'' ! n"

fun fmt_d :: "nat \<Rightarrow> string" where
  "fmt_d n = (if n < 10 then [digitChar n] else fmt_d (n div 10) @ [digitChar (n mod 10)])"

declare fmt_d.simps [simp del]

subsection \<open>Pushing added and removed files\<close>

text \<open>A change as \<^verbatim>\<open>github.com/convox/changes\<close> reports it.\<close>

record change =
  Operation :: string
  Base :: string
  Path :: string

record fileInfo =
  fileMode :: "32 word"
  fileSize :: "64 word"
  fileModTime :: int

record tarHeader =
  hdrName :: string
  hdrMode :: "64 word"
  hdrSize :: "64 word"
  hdrModTime :: int

text \<open>
  A call that may never come back. \<^verbatim>\<open>handleAdds\<close> writes the archive into an \<^verbatim>\<open>io.Pipe\<close>, which has
  no buffer: a write returns when the other end has read the bytes or has been closed. The
  other end is handed to \<^verbatim>\<open>FilesUpload\<close> and \<^verbatim>\<open>handleAdds\<close> never closes it, so a write made
  after the upload has stopped reading stays blocked.
\<close>

datatype 'a call = Returns 'a | Blocks

text \<open>
  What is outside the process while one batch is pushed: the answer of \<^verbatim>\<open>ProcessExec\<close> to
  \<^verbatim>\<open>pwd\<close> on a process (an error, or what it printed), \<^verbatim>\<open>os.Stat\<close> and \<^verbatim>\<open>os.Open\<close> on a local
  path, the three writes into the pipe (\<^verbatim>\<open>tw.WriteHeader\<close> of a header, \<^verbatim>\<open>io.Copy\<close> of the opened
  file, \<^verbatim>\<open>tw.Close\<close>), the closing of the pipe, the result \<^verbatim>\<open>FilesUpload\<close> hands back for a
  process, and the result of \<^verbatim>\<open>FilesDelete\<close> for a process and the files of the given changes.
  The calls to the provider and to the file system are taken to return.
\<close>

record syncWorld =
  execPwd :: "string \<Rightarrow> error + string"
  osStat :: "string \<Rightarrow> error + fileInfo"
  osOpen :: "string \<Rightarrow> error option"
  writeHeader :: "tarHeader \<Rightarrow> error option call"
  copyFile :: "string \<Rightarrow> error option call"
  tarClose :: "error option call"
  pipeClose :: "error option"
  filesUpload :: "string \<Rightarrow> error option"
  filesDelete :: "string \<Rightarrow> change list \<Rightarrow> error option"

text \<open>
  The loop of \<^verbatim>\<open>handleAdds\<close> over the batch (lines 351 to 383). \<open>hs\<close> are the headers written to
  the archive so far. The result says how the loop ends: \<open>Returns (Some e)\<close> when the function
  returns \<open>e\<close> from inside the loop, \<open>Returns None\<close> when the loop runs to its end, \<open>Blocks\<close> when
  a write into the pipe never returns; with it come the headers written. The error of
  \<^verbatim>\<open>tw.WriteHeader\<close> is not looked at by the code; a header whose write failed is not in the
  archive.
\<close>

fun handleAdds_loop ::
  "syncWorld \<Rightarrow> string \<Rightarrow> change list \<Rightarrow> tarHeader list
   \<Rightarrow> error option call \<times> tarHeader list"
where
  "handleAdds_loop w remote [] hs = (Returns None, hs)"
| "handleAdds_loop w remote (add # adds) hs =
     (let local = filepath_Join [Base add, Path add]
      in case osStat w local of
           Inl e \<Rightarrow>
             if os_IsNotExist e then handleAdds_loop w remote adds hs
             else (Returns (Some e), hs)
         | Inr stat \<Rightarrow>
            (let h = \<lparr>hdrName = filepath_Join [remote, Path add],
                      hdrMode = ucast (fileMode stat),
                      hdrSize = fileSize stat,
                      hdrModTime = fileModTime stat\<rparr>
             in case writeHeader w h of
                  Blocks \<Rightarrow> (Blocks, hs)
                | Returns r \<Rightarrow>
                   (let hs' = (case r of None \<Rightarrow> hs @ [h] | Some e \<Rightarrow> hs)
                    in case osOpen w local of
                         Some e \<Rightarrow> (Returns (Some e), hs')
                       | None \<Rightarrow>
                          (case copyFile w local of
                             Blocks \<Rightarrow> (Blocks, hs')
                           | Returns (Some e) \<Rightarrow> (Returns (Some e), hs')
                           | Returns None \<Rightarrow> handleAdds_loop w remote adds hs'))))"

text \<open>Lines 328 to 338: a remote directory that is not absolute is joined to the process's.\<close>

definition handleAdds_remote :: "syncWorld \<Rightarrow> string \<Rightarrow> string \<Rightarrow> error + string" where
  "handleAdds_remote w pid remote =
     (if \<not> filepath_IsAbs remote then
        (case execPwd w pid of
           Inl e \<Rightarrow> Inl (Err (pid @ '' pwd: '' @ errorText e))
         | Inr buf \<Rightarrow> Inr (filepath_Join [strings_TrimSpace buf, remote]))
      else Inr remote)"

text \<open>
  \<^verbatim>\<open>handleAdds\<close>: how the call ends (\<open>Returns r\<close> with the error \<open>r\<close> it returns, or \<open>Blocks\<close>), and
  the headers written to the archive.
\<close>

definition handleAdds ::
  "syncWorld \<Rightarrow> string \<Rightarrow> string \<Rightarrow> change list \<Rightarrow> error option call \<times> tarHeader list"
where
  "handleAdds w pid remote adds =
     (if adds = [] then (Returns None, [])
      else
        (case handleAdds_remote w pid remote of
           Inl e \<Rightarrow> (Returns (Some e), [])
         | Inr dir \<Rightarrow>
            (case handleAdds_loop w dir adds [] of
               (Blocks, hs) \<Rightarrow> (Blocks, hs)
             | (Returns (Some e), hs) \<Rightarrow> (Returns (Some e), hs)
             | (Returns None, hs) \<Rightarrow>
                (case tarClose w of
                   Blocks \<Rightarrow> (Blocks, hs)
                 | Returns (Some e) \<Rightarrow> (Returns (Some e), hs)
                 | Returns None \<Rightarrow>
                    (case pipeClose w of
                       Some e \<Rightarrow> (Returns (Some e), hs)
                     | None \<Rightarrow> (Returns (filesUpload w pid), hs))))))"

definition handleRemoves :: "syncWorld \<Rightarrow> string \<Rightarrow> change list \<Rightarrow> error option" where
  "handleRemoves w pid removes = (if removes = [] then None else filesDelete w pid removes)"



subsection \<open>Watching a path\<close>

text \<open>
  The messages of one process for the added files (lines 525 to 532) and for the removed ones
  (lines 538 to 545). \<open>label\<close> is the value of \<^verbatim>\<open>common.CoalesceString(bs.Remote, ".")\<close>, a helper
  of the package \<^verbatim>\<open>common\<close>.
\<close>

definition addMessages :: "string \<Rightarrow> string \<Rightarrow> change list \<Rightarrow> effect list" where
  "addMessages label service adds =
     (if length adds > 3 then
        [Written ''convox'' (''sync: '' @ fmt_d (length adds) @ '' files to <dir>'' @ label
           @ ''</dir> on <service>'' @ service @ ''</service>\<newline>'')]
      else if length adds > 0 then
        map (\<lambda>a. Written ''convox'' (''sync: <dir>'' @ Path a @ ''</dir> to <dir>'' @ label
               @ ''</dir> on <service>'' @ service @ ''</service>\<newline>'')) adds
      else [])"

definition removeMessages :: "string \<Rightarrow> string \<Rightarrow> change list \<Rightarrow> effect list" where
  "removeMessages label service removes =
     (if length removes > 3 then
        [Written ''convox'' (''remove: '' @ fmt_d (length removes) @ '' files from <dir>''
           @ label @ ''</dir> to <service>'' @ service @ ''</service>\<newline>'')]
      else if length removes > 0 then
        map (\<lambda>r. Written ''convox'' (''remove: <dir>'' @ Path r @ ''</dir> from <dir>'' @ label
               @ ''</dir> on <service>'' @ service @ ''</service>\<newline>'')) removes
      else [])"

text \<open>What is written when \<^verbatim>\<open>handleAdds\<close> or \<^verbatim>\<open>handleRemoves\<close> comes back with the given result.\<close>

definition reported :: "string \<Rightarrow> error option \<Rightarrow> effect list" where
  "reported what r =
     (case r of
        None \<Rightarrow> []
      | Some e \<Rightarrow> [Written ''convox'' (what @ errorText e @ ''\<newline>'')])"

text \<open>
  The body of the loop over the processes (lines 525 to 549), for the process \<open>pid\<close>: what it
  writes, and whether it runs to its end (\<open>True\<close>) or stays in a \<^verbatim>\<open>handleAdds\<close> that blocks.
\<close>

definition watchPath_process ::
  "syncWorld \<Rightarrow> string \<Rightarrow> string \<Rightarrow> buildSource \<Rightarrow> change list \<Rightarrow> change list \<Rightarrow> string
   \<Rightarrow> effect list \<times> bool"
where
  "watchPath_process w label service bs adds removes pid =
     (case fst (handleAdds w pid (Remote bs) adds) of
        Blocks \<Rightarrow> (addMessages label service adds, False)
      | Returns r \<Rightarrow>
          (addMessages label service adds
           @ reported ''sync add error: '' r
           @ removeMessages label service removes
           @ reported ''sync remove error: '' (handleRemoves w pid removes),
           True))"

text \<open>The loop over the processes (line 524): the next process is reached when the body ends.\<close>

fun watchPath_processes ::
  "syncWorld \<Rightarrow> string \<Rightarrow> string \<Rightarrow> buildSource \<Rightarrow> change list \<Rightarrow> change list \<Rightarrow> string list
   \<Rightarrow> effect list \<times> bool"
where
  "watchPath_processes w label service bs adds removes [] = ([], True)"
| "watchPath_processes w label service bs adds removes (pid # ids) =
     (case watchPath_process w label service bs adds removes pid of
        (out, False) \<Rightarrow> (out, False)
      | (out, True) \<Rightarrow>
         (case watchPath_processes w label service bs adds removes ids of
            (rest, ended) \<Rightarrow> (out @ rest, ended)))"

text \<open>
  The tick with a batch that is not empty (lines 516 to 552). \<open>pss\<close> is the answer of
  \<^verbatim>\<open>ProcessList\<close>: an error, or the ids of the processes. \<open>part\<close> is \<^verbatim>\<open>changes.Partition\<close>.
  The result is what was written and the batch with which the loop goes on, \<open>None\<close> when the
  tick never ends. When the listing fails the \<^verbatim>\<open>continue\<close> of line 519 keeps the batch.
\<close>

definition watchPath_tick ::
  "(change list \<Rightarrow> change list \<times> change list) \<Rightarrow> string \<Rightarrow> string \<Rightarrow> buildSource
   \<Rightarrow> change list \<Rightarrow> error + string list \<Rightarrow> syncWorld \<Rightarrow> effect list \<times> change list option"
where
  "watchPath_tick part label service bs chgs pss w =
     (case pss of
        Inl e \<Rightarrow>
          ([Written ''convox'' (''sync error: '' @ errorText e @ ''\<newline>'')], Some chgs)
      | Inr ids \<Rightarrow>
         (case part chgs of
            (adds, removes) \<Rightarrow>
              (case watchPath_processes w label service bs adds removes ids of
                 (out, True) \<Rightarrow> (out, Some [])
               | (out, False) \<Rightarrow> (out, None))))"






subsection \<open>Log lines\<close>

text \<open>\<^verbatim>\<open>\d\<close> of the regular expressions: an ASCII digit.\<close>

definition digit :: "char \<Rightarrow> bool" where
  "digit c = (c \<in> set ''0123456789'')"

text \<open>
  A string against a shape of the same length, in which \<^verbatim>\<open>d\<close> stands for \<^verbatim>\<open>\d\<close> and every other
  character for itself.
\<close>

fun matchShape :: "string \<Rightarrow> string \<Rightarrow> bool" where
  "matchShape [] [] = True"
| "matchShape (p # ps) (c # cs) = ((if p = CHR ''d'' then digit c else c = p) \<and> matchShape ps cs)"
| "matchShape [] (c # cs) = False"
| "matchShape (p # ps) [] = False"

text \<open>
  \<^verbatim>\<open>reAppLog.FindStringSubmatch\<close>, for the pattern
  \<^verbatim>\<open>^(\d{4}-\d{2}-\d{2})T(\d{2}:\d{2}:\d{2})Z ([^/]+)/([^/]+)/([^ ]+) (.*)$\<close>.
  The pattern is anchored at both ends and every group is cut off by a character it cannot
  hold, so there is one way at most to match a line: 21 characters of date, \<^verbatim>\<open>T\<close>, time,
  \<^verbatim>\<open>Z\<close> and a space; a non-empty kind up to the first slash; a non-empty name up to the next
  slash; a non-empty instance id up to the next space; and the rest of the line, which \<^verbatim>\<open>.*\<close>
  matches unless it holds a newline. The result is \<open>None\<close> for Go's \<^verbatim>\<open>nil\<close>, and otherwise
  the seven strings of the match: the line and the six groups.
\<close>

definition reAppLog :: "string \<Rightarrow> string list option" where
  "reAppLog line =
     (let stamp = take 21 line;
          r0 = drop 21 line;
          kind = takeWhile (\<lambda>c. c \<noteq> CHR ''/'') r0;
          r1 = dropWhile (\<lambda>c. c \<noteq> CHR ''/'') r0;
          name = takeWhile (\<lambda>c. c \<noteq> CHR ''/'') (tl r1);
          r2 = dropWhile (\<lambda>c. c \<noteq> CHR ''/'') (tl r1);
          inst = takeWhile (\<lambda>c. c \<noteq> CHR '' '') (tl r2);
          r3 = dropWhile (\<lambda>c. c \<noteq> CHR '' '') (tl r2);
          msg = tl r3
      in if matchShape ''dddd-dd-ddTdd:dd:ddZ '' stamp
            \<and> kind \<noteq> [] \<and> r1 \<noteq> [] \<and> name \<noteq> [] \<and> r2 \<noteq> [] \<and> inst \<noteq> [] \<and> r3 \<noteq> []
            \<and> CHR 0x0A \<notin> set msg
         then Some [line, take 10 stamp, take 8 (drop 11 stamp), kind, name, inst, msg]
         else None)"

text \<open>
  A match of \<^verbatim>\<open>\033\[\d+;\d+H\<close> at the head of a string: the result is what follows the match.
\<close>

definition screenSequence :: "string \<Rightarrow> string option" where
  "screenSequence s =
     (case s of
        e # b # r \<Rightarrow>
          (let row = takeWhile digit r;
               r1 = dropWhile digit r;
               col = takeWhile digit (tl r1);
               r2 = dropWhile digit (tl r1)
           in if e = CHR 0x1B \<and> b = CHR ''['' \<and> row \<noteq> [] \<and> r1 \<noteq> [] \<and> hd r1 = CHR '';''
                 \<and> col \<noteq> [] \<and> r2 \<noteq> [] \<and> hd r2 = CHR ''H''
              then Some (tl r2)
              else None)
      | _ \<Rightarrow> None)"

text \<open>
  \<^verbatim>\<open>stripANSIScreenCommands\<close>: \<^verbatim>\<open>ReplaceAllString\<close> with the empty string, for the one pattern
  of \<^verbatim>\<open>ansiScreenSequences\<close>. The matches are taken from left to right and do not overlap.
\<close>

function stripANSIScreenCommands :: "string \<Rightarrow> string" where
  "stripANSIScreenCommands [] = []"
| "stripANSIScreenCommands (c # cs) =
     (case screenSequence (c # cs) of
        Some rest \<Rightarrow> stripANSIScreenCommands rest
      | None \<Rightarrow> c # stripANSIScreenCommands cs)"
  by pat_completeness auto
termination
proof (relation "measure length")
  fix c cs rest
  assume "screenSequence (c # cs) = Some rest"
  then obtain b r where cs: "cs = b # r"
    and rest: "rest = tl (dropWhile digit (tl (dropWhile digit r)))"
    by (auto simp: screenSequence_def Let_def split: list.splits if_splits)
  have "length (dropWhile digit (tl (dropWhile digit r))) \<le> length (tl (dropWhile digit r))"
    by (rule length_dropWhile_le)
  moreover have "length (dropWhile digit r) \<le> length r"
    by (rule length_dropWhile_le)
  ultimately have "length rest \<le> length r"
    using rest by simp
  then show "(rest, c # cs) \<in> measure length"
    using cs by simp
qed simp_all

declare stripANSIScreenCommands.simps [simp del]

text \<open>\<^verbatim>\<open>services[service]\<close> on a \<^verbatim>\<open>map[string]bool\<close>: a missing key reads as false.\<close>

definition interested :: "(string \<rightharpoonup> bool) \<Rightarrow> string \<Rightarrow> bool" where
  "interested services service = (case services service of None \<Rightarrow> False | Some b \<Rightarrow> b)"

text \<open>
  The \<^verbatim>\<open>default\<close> branch of the loop of \<^verbatim>\<open>writeLogs\<close> for one line (lines 802 to 827).
  \<^verbatim>\<open>strings.Split(match[5], "-")[0]\<close> is what stands before the first hyphen.
\<close>

definition writeLogs_line :: "(string \<rightharpoonup> bool) \<Rightarrow> string \<Rightarrow> effect list" where
  "writeLogs_line services line =
     (case reAppLog line of
        None \<Rightarrow> []
      | Some match \<Rightarrow>
          if length match \<noteq> 7 then []
          else if match ! 3 = ''service'' then
            (let service = match ! 4
             in if \<not> interested services service then []
                else [Written service (stripANSIScreenCommands (match ! 6) @ ''\<newline>'')])
          else if match ! 3 = ''system'' then
            (let service = takeWhile (\<lambda>c. c \<noteq> CHR ''-'') (match ! 5)
             in if \<not> interested services service then []
                else [Written service (match ! 6 @ ''\<newline>'')])
          else [])"

text \<open>
  \<^verbatim>\<open>writeLogs\<close> over the lines the scanner yields. Each line comes with what the \<^verbatim>\<open>select\<close>
  finds when the line is reached: \<open>True\<close> when the context is done, and then the function
  returns. \<open>scanErr\<close> is the value of \<^verbatim>\<open>ls.Err()\<close> after the last line.
\<close>

fun writeLogs :: "(string \<rightharpoonup> bool) \<Rightarrow> (bool \<times> string) list \<Rightarrow> error option \<Rightarrow> effect list" where
  "writeLogs services [] scanErr =
     (case scanErr of
        None \<Rightarrow> []
      | Some e \<Rightarrow> [Written ''convox'' (''scan error: '' @ errorText e @ ''\<newline>'')])"
| "writeLogs services ((done, line) # rest) scanErr =
     (if done then [] else writeLogs_line services line @ writeLogs services rest scanErr)"

subsection \<open>Sample collaborators\<close>

text \<open>
  A docker daemon that knows one image, \<^verbatim>\<open>base\<close>, configured with \<^verbatim>\<open>PORT=8080\<close> and the working
  directory \<^verbatim>\<open>/app\<close>; the second inspection prints the directory followed by a newline.
\<close>

fun sampleInspectEnv :: "string \<Rightarrow> error + string" where
  \<open>sampleInspectEnv img =
     (if img = ''base'' then Inr ''["PORT=8080"]'' else Inl (Err ''No such image''))\<close>

fun sampleUnmarshal :: "string \<Rightarrow> error + string list" where
  \<open>sampleUnmarshal data =
     (if data = ''["PORT=8080"]'' then Inr [''PORT=8080'']
      else Inl (Err ''invalid character''))\<close>

fun sampleInspectWorkingDir :: "string \<Rightarrow> error + string" where
  "sampleInspectWorkingDir img =
     (if img = ''base'' then Inr ''/app\<newline>'' else Inl (Err ''No such image''))"

definition sampleInspector :: imageInspector where
  "sampleInspector =
     \<lparr>inspectEnv = sampleInspectEnv, unmarshalStrings = sampleUnmarshal,
      inspectWorkingDir = sampleInspectWorkingDir\<rparr>"

text \<open>
  A partition that sorts the changes of a batch by their operation, in the order of arrival.
\<close>

definition samplePartition :: "change list \<Rightarrow> change list \<times> change list" where
  "samplePartition chgs =
     (filter (\<lambda>c. Operation c = ''add'') chgs, filter (\<lambda>c. Operation c = ''remove'') chgs)"

text \<open>
  A source tree with five files, one of which cannot be opened, and processes that answer
  \<^verbatim>\<open>pwd\<close> with \<^verbatim>\<open>/app\<close> and accept every upload and every deletion.
\<close>

definition sampleFiles :: "string list" where
  "sampleFiles =
     [''/src/app/main.go'', ''/src/app/go.mod'', ''/src/app/go.sum'', ''/src/app/README.md'',
      ''/src/app/locked'']"

definition sampleStat :: "string \<Rightarrow> error + fileInfo" where
  "sampleStat path =
     (if path \<in> set sampleFiles
      then Inr \<lparr>fileMode = 0x1A4, fileSize = 12, fileModTime = 1700000000\<rparr>
      else Inl (ErrNotExist (''stat '' @ path @ '': no such file or directory'')))"

definition sampleOpen :: "string \<Rightarrow> error option" where
  "sampleOpen path =
     (if path = ''/src/app/locked'' then Some (Err (''open '' @ path @ '': permission denied''))
      else None)"

definition sampleWorld :: syncWorld where
  "sampleWorld =
     \<lparr>execPwd = (\<lambda>pid. Inr ''/app\<newline>''), osStat = sampleStat, osOpen = sampleOpen,
      writeHeader = (\<lambda>h. Returns None), copyFile = (\<lambda>path. Returns None),
      tarClose = Returns None, pipeClose = None,
      filesUpload = (\<lambda>pid. None), filesDelete = (\<lambda>pid removes. None)\<rparr>"

definition added :: "string \<Rightarrow> change" where
  "added path = \<lparr>Operation = ''add'', Base = ''/src/app/'', Path = path\<rparr>"

definition removed :: "string \<Rightarrow> change" where
  "removed path = \<lparr>Operation = ''remove'', Base = ''/src/app/'', Path = path\<rparr>"



section \<open>Properties\<close>

subsection \<open>Environment substitution\<close>

lemma strings_Replace_absent:
  "old \<noteq> [] \<Longrightarrow> \<not> strings_Contains s old \<Longrightarrow> strings_Replace s old new = s"
proof (induction s)
  case Nil
  then show ?case by (simp add: strings_Replace.simps)
next
  case (Cons c cs)
  then show ?case by (simp add: strings_Replace.simps [of "c # cs"])
qed

lemma replaceEnv_no_tokens:
  "(\<forall>(k, v) \<in> set env. \<not> strings_Contains s (''${'' @ k @ ''}'') \<and> \<not> strings_Contains s (''$'' @ k))
   \<Longrightarrow> replaceEnv s env = s"
  by (induction env) (auto simp: strings_Replace_absent)

text \<open>
  C9. With the environment \<open>{PORT \<mapsto> 8080}\<close>, \<open>replaceEnv\<close> turns \<^verbatim>\<open>/${PORT}/app\<close> into
  \<^verbatim>\<open>/8080/app\<close>, and it does the same to the \<^verbatim>\<open>$PORT\<close> form. Applied to the result it changes
  nothing; in general it returns unchanged every string that holds neither form of a token
  for any variable of the environment.
\<close>

theorem replaceEnv_port:
  "replaceEnv ''/${PORT}/app'' [(''PORT'', ''8080'')] = ''/8080/app''
   \<and> replaceEnv ''/$PORT/app'' [(''PORT'', ''8080'')] = ''/8080/app''
   \<and> replaceEnv (replaceEnv ''/${PORT}/app'' [(''PORT'', ''8080'')]) [(''PORT'', ''8080'')]
       = ''/8080/app''
   \<and> ((\<forall>(k, v) \<in> set env.
          \<not> strings_Contains s (''${'' @ k @ ''}'') \<and> \<not> strings_Contains s (''$'' @ k))
        \<longrightarrow> replaceEnv s env = s)"
proof -
  have a: "replaceEnv ''/${PORT}/app'' [(''PORT'', ''8080'')] = ''/8080/app''"
    by code_simp
  have b: "replaceEnv ''/$PORT/app'' [(''PORT'', ''8080'')] = ''/8080/app''"
    by code_simp
  have c: "replaceEnv ''/8080/app'' [(''PORT'', ''8080'')] = ''/8080/app''"
    by code_simp
  show ?thesis
    using a b c replaceEnv_no_tokens [of env s] by simp
qed

theorem replaceEnv_port_witness:
  "\<not> strings_Contains ''/8080/app'' ''${PORT}'' \<and> \<not> strings_Contains ''/8080/app'' ''$PORT''
   \<and> replaceEnv ''/8080/app'' [(''PORT'', ''8080'')] = ''/8080/app''"
proof -
  have h: "\<forall>(k, v) \<in> set [(''PORT'', ''8080'')].
      \<not> strings_Contains ''/8080/app'' (''${'' @ k @ ''}'')
      \<and> \<not> strings_Contains ''/8080/app'' (''$'' @ k)"
    by simp
  from replaceEnv_port [of "[(''PORT'', ''8080'')]" "''/8080/app''"] h
  have "replaceEnv ''/8080/app'' [(''PORT'', ''8080'')] = ''/8080/app''"
    by blast
  then show ?thesis by simp
qed

subsection \<open>Build polling\<close>

lemma waitForBuild_pending:
  "\<forall>s \<in> set ss. s = ''created'' \<or> s = ''running''
   \<Longrightarrow> waitForBuild (map polled ss @ evs) n = waitForBuild evs (n + length ss)"
  by (induction ss arbitrary: n) (auto simp: polled_def)

text \<open>
  C2. Every tick makes one poll. On the statuses created, running, complete the wait returns
  no error after exactly three polls (after two it is still waiting); on running, failed it
  returns the build-failure error at the second poll, whatever would follow; on running, bogus
  it returns the unknown-status error. A sequence of polls that only ever see created or
  running does not end the loop.
\<close>

theorem waitForBuild_polls:
  "waitForBuild [polled ''created'', polled ''running'', polled ''complete''] 0 = Some (None, 3)
   \<and> waitForBuild [polled ''created'', polled ''running''] 0 = None
   \<and> waitForBuild (polled ''running'' # polled ''failed'' # evs) 0
       = Some (Some (Err ''build failed''), 2)
   \<and> waitForBuild (polled ''running'' # polled ''bogus'' # evs) 0
       = Some (Some (Err ''unknown build status: bogus''), 2)
   \<and> ((\<forall>s \<in> set ss. s = ''created'' \<or> s = ''running'')
        \<longrightarrow> waitForBuild (map polled ss) n = None)"
proof -
  have "(\<forall>s \<in> set ss. s = ''created'' \<or> s = ''running'')
        \<longrightarrow> waitForBuild (map polled ss) n = None"
    using waitForBuild_pending [of ss "[]" n] by simp
  then show ?thesis
    by (simp add: polled_def numeral_3_eq_3 numeral_2_eq_2)
qed

theorem waitForBuild_polls_witness:
  "set [''created'', ''running'', ''running'', ''created''] \<subseteq> {''created'', ''running''}
   \<and> waitForBuild (map polled [''created'', ''running'', ''running'', ''created'']) 0 = None"
proof -
  have h: "\<forall>s \<in> set [''created'', ''running'', ''running'', ''created''].
             s = ''created'' \<or> s = ''running''"
    by simp
  from waitForBuild_polls [of "[]" "[''created'', ''running'', ''running'', ''created'']" 0] h
  show ?thesis by simp
qed

subsection \<open>Cancellation\<close>

text \<open>
  C7. Cancellation does not come back as an error. When the context is done while
  \<open>waitForBuild\<close> waits, after any number of polls that saw created or running, it returns nil.
  \<open>Start2\<close> returns nil when it finds the context done at entry, and when, the build having been
  created, it finds the context done before the promotion.
\<close>

theorem cancellation_returns_nil:
  "((\<forall>s \<in> set ss. s = ''created'' \<or> s = ''running'')
      \<longrightarrow> waitForBuild (map polled ss @ BuildCtxDone # evs) n = Some (None, n + length ss))
   \<and> (ctxDoneAtEntry w \<longrightarrow> Start2 opts w = Returned None)
   \<and> (\<not> ctxDoneAtEntry w \<and> optApp opts \<noteq> [] \<and> Start2_app w = None \<and> readManifest w = None
        \<and> appEnvironment w = None \<and> manifestLoad w = None \<and> manifestValidate w = None
        \<and> optBuild opts \<and> buildCreated w = Inr b \<and> ctxDoneAfterBuild w
      \<longrightarrow> Start2 opts w = Returned None)"
proof -
  have "(\<forall>s \<in> set ss. s = ''created'' \<or> s = ''running'')
      \<longrightarrow> waitForBuild (map polled ss @ BuildCtxDone # evs) n = Some (None, n + length ss)"
    using waitForBuild_pending [of ss "BuildCtxDone # evs" n] by simp
  then show ?thesis
    by (simp add: Start2_def)
qed

theorem cancellation_returns_nil_witness:
  "waitForBuild (map polled [''created'', ''running''] @ [BuildCtxDone]) 0 = Some (None, 2)
   \<and> Start2 \<lparr>optApp = ''web'', optBuild = True, optExternal = False, optManifest = []\<rparr>
        \<lparr>ctxDoneAtEntry = True, appGet = Inl (Err ''no app''), appCreate = None,
         readManifest = None, appEnvironment = None, manifestLoad = None,
         manifestValidate = None, buildCreated = Inl (Err ''no build''),
         ctxDoneAfterBuild = True, promoteDevelopment = None, getwd = None,
         waitForAppRunning = None, ctxEverDone = True, appGetAtStop = Inl (Err ''no app''),
         promoteAtStop = None\<rparr> = Returned None
   \<and> Start2 \<lparr>optApp = ''web'', optBuild = True, optExternal = False, optManifest = []\<rparr>
        \<lparr>ctxDoneAtEntry = False,
         appGet = Inr \<lparr>appGeneration = ''2'', appRelease = ''R1''\<rparr>, appCreate = None,
         readManifest = None, appEnvironment = None, manifestLoad = None,
         manifestValidate = None,
         buildCreated = Inr \<lparr>buildId = ''B1'', buildRelease = ''R2''\<rparr>,
         ctxDoneAfterBuild = True, promoteDevelopment = Some (Err ''promote failed''),
         getwd = None, waitForAppRunning = None, ctxEverDone = True,
         appGetAtStop = Inl (Err ''no app''), promoteAtStop = None\<rparr> = Returned None"
proof -
  let ?o = "\<lparr>optApp = ''web'', optBuild = True, optExternal = False, optManifest = []\<rparr>"
  let ?w1 = "\<lparr>ctxDoneAtEntry = True, appGet = Inl (Err ''no app''), appCreate = None,
         readManifest = None, appEnvironment = None, manifestLoad = None,
         manifestValidate = None, buildCreated = Inl (Err ''no build''),
         ctxDoneAfterBuild = True, promoteDevelopment = None, getwd = None,
         waitForAppRunning = None, ctxEverDone = True, appGetAtStop = Inl (Err ''no app''),
         promoteAtStop = None\<rparr>"
  let ?b = "\<lparr>buildId = ''B1'', buildRelease = ''R2''\<rparr>"
  let ?w2 = "\<lparr>ctxDoneAtEntry = False,
         appGet = Inr \<lparr>appGeneration = ''2'', appRelease = ''R1''\<rparr>, appCreate = None,
         readManifest = None, appEnvironment = None, manifestLoad = None,
         manifestValidate = None, buildCreated = Inr ?b,
         ctxDoneAfterBuild = True, promoteDevelopment = Some (Err ''promote failed''),
         getwd = None, waitForAppRunning = None, ctxEverDone = True,
         appGetAtStop = Inl (Err ''no app''), promoteAtStop = None\<rparr>"
  have h: "\<forall>s \<in> set [''created'', ''running'']. s = ''created'' \<or> s = ''running''"
    by simp
  have a: "Start2_app ?w2 = None"
    by (simp add: Start2_app_def)
  from cancellation_returns_nil [of "[''created'', ''running'']" "[]" 0 ?w1 ?o ?b] h
  have 1: "waitForBuild (map polled [''created'', ''running''] @ [BuildCtxDone]) 0 = Some (None, 2)"
    and 2: "Start2 ?o ?w1 = Returned None"
    by simp_all
  from cancellation_returns_nil [of "[]" "[]" 0 ?w2 ?o ?b] a
  have 3: "Start2 ?o ?w2 = Returned None"
    by simp
  from 1 2 3 show ?thesis by blast
qed

subsection \<open>Build sources\<close>

lemma buildSources_FROM_env_map_add:
  "buildSources_FROM_env ee env = env ++ map_of (rev (List.map_filter splitEquals ee))"
proof (induction ee arbitrary: env)
  case Nil
  then show ?case by (simp add: List.map_filter_simps)
next
  case (Cons e ee)
  show ?case
  proof (cases "splitEquals e")
    case None
    then show ?thesis by (simp add: Cons.IH List.map_filter_simps)
  next
    case (Some kv)
    obtain k v where kv: "kv = (k, v)" by (cases kv)
    have "buildSources_FROM_env (e # ee) env = env(k \<mapsto> v) ++ map_of (rev (List.map_filter splitEquals ee))"
      using Some kv by (simp add: Cons.IH fun_upd_def)
    also have "\<dots> = env ++ map_of (rev (List.map_filter splitEquals (e # ee)))"
      using Some kv
      by (auto simp: List.map_filter_simps map_add_def fun_eq_iff split: option.splits)
    finally show ?thesis .
  qed
qed

text \<open>
  C3, as the code has it. A \<^verbatim>\<open>FROM\<close> line with an image, both inspections of which succeed,
  assigns every \<^verbatim>\<open>key=value\<close> entry of the image to the environment map: an entry of the image
  replaces what the map held for its key (also a value an earlier \<^verbatim>\<open>ENV\<close> line put there, and
  of two entries of the image for one key the later one stays), and the keys the image does not
  configure keep their values. The working directory becomes the trimmed output of the second
  inspection, and the sources found so far are untouched.
\<close>

theorem buildSources_FROM_merges:
  assumes "length parts > 1"
    and "inspectEnv insp (parts ! 1) = Inr data"
    and "unmarshalStrings insp data = Inr ee"
    and "inspectWorkingDir insp (parts ! 1) = Inr out"
  shows "\<exists>st'. buildSources_FROM insp parts st = Inr st'
           \<and> environ st' = environ st ++ map_of (rev (List.map_filter splitEquals ee))
           \<and> workdir st' = strings_TrimSpace out
           \<and> sources st' = sources st"
  using assms by (simp add: buildSources_FROM_def buildSources_FROM_env_map_add)

theorem buildSources_FROM_merges_witness:
  "\<exists>st'. buildSources_FROM sampleInspector [''FROM'', ''base'']
            \<lparr>sources = [], environ = [''HOME'' \<mapsto> ''/root''], workdir = ''/''\<rparr> = Inr st'
         \<and> environ st' = [''HOME'' \<mapsto> ''/root'', ''PORT'' \<mapsto> ''8080'']
         \<and> workdir st' = ''/app''
         \<and> sources st' = []"
proof -
  have t: "strings_TrimSpace ''/app\<newline>'' = ''/app''"
    by code_simp
  have s: "splitEquals ''PORT=8080'' = Some (''PORT'', ''8080'')"
    by (simp add: splitEquals_def)
  from buildSources_FROM_merges [of "[''FROM'', ''base'']" sampleInspector \<open>''["PORT=8080"]''\<close>
      "[''PORT=8080'']" "''/app\<newline>''"
      "\<lparr>sources = [], environ = [''HOME'' \<mapsto> ''/root''], workdir = ''/''\<rparr>"]
  show ?thesis
    by (simp add: sampleInspector_def t s List.map_filter_simps)
qed

text \<open>
  C3 as stated fails: after \<^verbatim>\<open>ENV PORT 3000\<close>, the line \<^verbatim>\<open>FROM base\<close> leaves \<^verbatim>\<open>PORT\<close> at the
  image's 8080. The value the earlier instruction set is overwritten.
\<close>

theorem buildSources_FROM_overwrites_ENV:
  "buildSources_ENV [''ENV'', ''PORT'', ''3000''] \<lparr>sources = [], environ = Map.empty, workdir = []\<rparr>
     = \<lparr>sources = [], environ = [''PORT'' \<mapsto> ''3000''], workdir = []\<rparr>
   \<and> buildSources_FROM sampleInspector [''FROM'', ''base'']
        \<lparr>sources = [], environ = [''PORT'' \<mapsto> ''3000''], workdir = []\<rparr>
     = Inr \<lparr>sources = [], environ = [''PORT'' \<mapsto> ''8080''], workdir = ''/app''\<rparr>"
proof -
  have t: "strings_TrimSpace ''/app\<newline>'' = ''/app''"
    by code_simp
  have s: "splitEquals ''PORT=8080'' = Some (''PORT'', ''8080'')"
    by (simp add: splitEquals_def)
  show ?thesis
    by (simp add: buildSources_ENV_def buildSources_FROM_def sampleInspector_def t s)
qed

lemma buildSources_contained_member:
  assumes "b \<in> set later"
    and "strings_HasPrefix (Local a) (Local b)"
    and "Remote a = Remote b
         \<or> (\<exists>p. rel (Local b) (Local a) = Inr p \<and> rel (Remote b) (Remote a) = Inr p)"
  shows "buildSources_contained rel a later \<noteq> Inr False"
  using assms
proof (induction later)
  case Nil
  then show ?case by simp
next
  case (Cons c later)
  show ?case
  proof (cases "c = b")
    case True
    with Cons.prems show ?thesis by auto
  next
    case False
    with Cons have "buildSources_contained rel a later \<noteq> Inr False" by simp
    then show ?thesis by (auto split: sum.splits)
  qed
qed

lemma buildSources_dedup_subseq:
  "buildSources_dedup rel xs = Inr r \<Longrightarrow> subseq r xs"
  by (induction xs arbitrary: r) (auto split: sum.splits if_splits)

lemma buildSources_dedup_append:
  "buildSources_dedup rel (pre @ xs) = Inr out
   \<Longrightarrow> \<exists>kept r. subseq kept pre \<and> buildSources_dedup rel xs = Inr r \<and> out = kept @ r"
proof (induction pre arbitrary: out)
  case Nil
  then show ?case by simp
next
  case (Cons p pre)
  from Cons.prems obtain c out' where c: "buildSources_contained rel p (pre @ xs) = Inr c"
    and o: "buildSources_dedup rel (pre @ xs) = Inr out'"
    and out: "out = (if c then out' else p # out')"
    by (auto split: sum.splits)
  from Cons.IH [OF o] obtain kept r where k: "subseq kept pre"
    and r: "buildSources_dedup rel xs = Inr r" and e: "out' = kept @ r"
    by blast
  show ?case
  proof (cases c)
    case True
    with out e have "out = kept @ r" by simp
    moreover from k have "subseq kept (p # pre)" by auto
    ultimately show ?thesis using r by blast
  next
    case False
    with out e have "out = (p # kept) @ r" by simp
    moreover from k have "subseq (p # kept) (p # pre)" by simp
    ultimately show ?thesis using r by blast
  qed
qed

text \<open>
  C1, as the code has it. The inner loop of the deduplication looks only at the entries that
  come after the one it decides on. Let \<open>A\<close> stand in the list with \<open>B\<close> somewhere after it, the
  local path of \<open>B\<close> a strict prefix of that of \<open>A\<close>, and either the remote paths equal or the
  relative path from \<open>B\<close> to \<open>A\<close> the same on the local and on the remote side. If a list is
  returned at all, it is made of entries kept from before \<open>A\<close> followed by the result for the
  entries after \<open>A\<close>: the entry \<open>A\<close> is not in it, unless the same pair also stands elsewhere in
  the list. This holds whatever function \<^verbatim>\<open>filepath.Rel\<close> is.
\<close>

theorem buildSources_dedup_drops_contained:
  assumes "buildSources_dedup rel (pre @ A # post) = Inr out"
    and "B \<in> set post"
    and "strictPrefixPath (Local B) (Local A)"
    and "Remote A = Remote B
         \<or> (\<exists>p. rel (Local B) (Local A) = Inr p \<and> rel (Remote B) (Remote A) = Inr p)"
  shows "(\<exists>kept r. subseq kept pre \<and> buildSources_dedup rel post = Inr r \<and> out = kept @ r)
         \<and> (A \<notin> set pre \<and> A \<notin> set post \<longrightarrow> A \<notin> set out)"
proof -
  from buildSources_dedup_append [OF assms(1)] obtain kept r where k: "subseq kept pre"
    and r: "buildSources_dedup rel (A # post) = Inr r" and o: "out = kept @ r"
    by blast
  have "buildSources_contained rel A post \<noteq> Inr False"
    using buildSources_contained_member [of B post A rel] assms(2,3,4)
    by (simp add: strictPrefixPath_def)
  with r have r': "buildSources_dedup rel post = Inr r"
    by (auto split: sum.splits if_splits)
  have "set kept \<subseteq> set pre" using k by (auto dest: list_emb_set)
  moreover have "set r \<subseteq> set post"
    using buildSources_dedup_subseq [OF r'] by (auto dest: list_emb_set)
  ultimately show ?thesis using k r' o by auto
qed

theorem buildSources_dedup_drops_contained_witness:
  "strictPrefixPath ''/src/app/'' ''/src/app/sub/''
   \<and> filepath_Rel ''/src/app/'' ''/src/app/sub/'' = Inr ''sub''
   \<and> filepath_Rel ''/srv'' ''/srv/sub'' = Inr ''sub''
   \<and> buildSources_dedup filepath_Rel
        [\<lparr>Local = ''/src/app/sub/'', Remote = ''/srv/sub''\<rparr>,
         \<lparr>Local = ''/src/app/'', Remote = ''/srv''\<rparr>]
      = Inr [\<lparr>Local = ''/src/app/'', Remote = ''/srv''\<rparr>]
   \<and> \<lparr>Local = ''/src/app/sub/'', Remote = ''/srv/sub''\<rparr>
        \<notin> set [\<lparr>Local = ''/src/app/'', Remote = ''/srv''\<rparr>]"
proof -
  let ?A = "\<lparr>Local = ''/src/app/sub/'', Remote = ''/srv/sub''\<rparr>"
  let ?B = "\<lparr>Local = ''/src/app/'', Remote = ''/srv''\<rparr>"
  have p: "strictPrefixPath ''/src/app/'' ''/src/app/sub/''"
    by code_simp
  have l: "filepath_Rel ''/src/app/'' ''/src/app/sub/'' = Inr ''sub''"
    by code_simp
  have r: "filepath_Rel ''/srv'' ''/srv/sub'' = Inr ''sub''"
    by code_simp
  have d: "buildSources_dedup filepath_Rel ([] @ ?A # [?B]) = Inr [?B]"
    by code_simp
  from buildSources_dedup_drops_contained [of filepath_Rel "[]" ?A "[?B]" "[?B]" ?B] d p l r
  have "?A \<notin> set [?B]" by simp
  with p l r d show ?thesis by simp
qed

text \<open>
  C1 as stated fails: with the containing entry first and the contained entry second, the
  inner loop for the second entry has nothing left to compare it with, and both are returned.
\<close>

theorem buildSources_dedup_keeps_later_contained:
  "strictPrefixPath ''/src/app/'' ''/src/app/sub/''
   \<and> filepath_Rel ''/src/app/'' ''/src/app/sub/'' = Inr ''sub''
   \<and> filepath_Rel ''/srv'' ''/srv/sub'' = Inr ''sub''
   \<and> buildSources_dedup filepath_Rel
        [\<lparr>Local = ''/src/app/'', Remote = ''/srv''\<rparr>,
         \<lparr>Local = ''/src/app/sub/'', Remote = ''/srv/sub''\<rparr>]
      = Inr [\<lparr>Local = ''/src/app/'', Remote = ''/srv''\<rparr>,
             \<lparr>Local = ''/src/app/sub/'', Remote = ''/srv/sub''\<rparr>]"
  by code_simp

subsection \<open>Adding files\<close>







subsection \<open>The watch loop\<close>









lemma watchPath_processes_all:
  "\<forall>pid \<in> set ids. fst (handleAdds w pid (Remote bs) adds) = Returns (res pid) \<Longrightarrow>
   watchPath_processes w label service bs adds removes ids
     = (concat (map (\<lambda>pid. addMessages label service adds
                          @ reported ''sync add error: '' (res pid)
                          @ removeMessages label service removes
                          @ reported ''sync remove error: '' (handleRemoves w pid removes)) ids),
        True)"
  by (induction ids) (simp_all add: watchPath_process_def)




subsection \<open>Progress messages\<close>

text \<open>
  C6, as the code has it. The messages are written inside the loop over the processes, once
  for each process the batch is pushed to. More than three added files give the one summary
  line and one to three added files give one line each, in the order of the batch; the removed
  files follow the same threshold. On a tick on which the processes are listed and \<open>handleAdds\<close>
  returns for each of them, what is written is, for each process in turn, the messages for the
  added files, the error of \<open>handleAdds\<close> if there is one, the messages for the removed files,
  and the error of \<open>handleRemoves\<close> if there is one; the batch is then empty. For a process on
  which \<open>handleAdds\<close> blocks, the messages for the added files are the last thing written.
\<close>

theorem sync_messages_per_process:
  "(length adds > 3 \<longrightarrow>
      addMessages label service adds =
        [Written ''convox'' (''sync: '' @ fmt_d (length adds) @ '' files to <dir>'' @ label
           @ ''</dir> on <service>'' @ service @ ''</service>\<newline>'')])
   \<and> (0 < length adds \<and> length adds \<le> 3 \<longrightarrow>
      addMessages label service adds =
        map (\<lambda>a. Written ''convox'' (''sync: <dir>'' @ Path a @ ''</dir> to <dir>'' @ label
               @ ''</dir> on <service>'' @ service @ ''</service>\<newline>'')) adds)
   \<and> (length removes > 3 \<longrightarrow>
      removeMessages label service removes =
        [Written ''convox'' (''remove: '' @ fmt_d (length removes) @ '' files from <dir>''
           @ label @ ''</dir> to <service>'' @ service @ ''</service>\<newline>'')])
   \<and> (0 < length removes \<and> length removes \<le> 3 \<longrightarrow>
      removeMessages label service removes =
        map (\<lambda>r. Written ''convox'' (''remove: <dir>'' @ Path r @ ''</dir> from <dir>'' @ label
               @ ''</dir> on <service>'' @ service @ ''</service>\<newline>'')) removes)
   \<and> (part chgs = (adds, removes)
        \<and> (\<forall>pid \<in> set ids. fst (handleAdds w pid (Remote bs) adds) = Returns (res pid))
      \<longrightarrow> watchPath_tick part label service bs chgs (Inr ids) w
          = (concat (map (\<lambda>pid. addMessages label service adds
                               @ reported ''sync add error: '' (res pid)
                               @ removeMessages label service removes
                               @ reported ''sync remove error: '' (handleRemoves w pid removes))
                       ids),
             Some []))
   \<and> (fst (handleAdds w pid (Remote bs) adds) = Returns r
      \<longrightarrow> watchPath_process w label service bs adds removes pid
          = (addMessages label service adds
             @ reported ''sync add error: '' r
             @ removeMessages label service removes
             @ reported ''sync remove error: '' (handleRemoves w pid removes),
             True))
   \<and> (fst (handleAdds w pid (Remote bs) adds) = Blocks
      \<longrightarrow> watchPath_process w label service bs adds removes pid
          = (addMessages label service adds, False))"
proof -
  have q: "(fst (handleAdds w pid (Remote bs) adds) = Returns r
      \<longrightarrow> watchPath_process w label service bs adds removes pid
          = (addMessages label service adds
             @ reported ''sync add error: '' r
             @ removeMessages label service removes
             @ reported ''sync remove error: '' (handleRemoves w pid removes),
             True))
   \<and> (fst (handleAdds w pid (Remote bs) adds) = Blocks
      \<longrightarrow> watchPath_process w label service bs adds removes pid
          = (addMessages label service adds, False))"
    by (simp add: watchPath_process_def)
  have t: "part chgs = (adds, removes)
        \<and> (\<forall>pid \<in> set ids. fst (handleAdds w pid (Remote bs) adds) = Returns (res pid))
      \<longrightarrow> watchPath_tick part label service bs chgs (Inr ids) w
          = (concat (map (\<lambda>pid. addMessages label service adds
                               @ reported ''sync add error: '' (res pid)
                               @ removeMessages label service removes
                               @ reported ''sync remove error: '' (handleRemoves w pid removes))
                       ids),
             Some [])"
  proof (intro impI, elim conjE)
    assume p: "part chgs = (adds, removes)"
      and h: "\<forall>pid \<in> set ids. fst (handleAdds w pid (Remote bs) adds) = Returns (res pid)"
    note a = watchPath_processes_all [OF h, of label service removes]
    show "watchPath_tick part label service bs chgs (Inr ids) w
          = (concat (map (\<lambda>pid. addMessages label service adds
                               @ reported ''sync add error: '' (res pid)
                               @ removeMessages label service removes
                               @ reported ''sync remove error: '' (handleRemoves w pid removes))
                       ids),
             Some [])"
      using p by (simp add: watchPath_tick_def a)
  qed
  have m: "(length adds > 3 \<longrightarrow>
      addMessages label service adds =
        [Written ''convox'' (''sync: '' @ fmt_d (length adds) @ '' files to <dir>'' @ label
           @ ''</dir> on <service>'' @ service @ ''</service>\<newline>'')])
   \<and> (0 < length adds \<and> length adds \<le> 3 \<longrightarrow>
      addMessages label service adds =
        map (\<lambda>a. Written ''convox'' (''sync: <dir>'' @ Path a @ ''</dir> to <dir>'' @ label
               @ ''</dir> on <service>'' @ service @ ''</service>\<newline>'')) adds)
   \<and> (length removes > 3 \<longrightarrow>
      removeMessages label service removes =
        [Written ''convox'' (''remove: '' @ fmt_d (length removes) @ '' files from <dir>''
           @ label @ ''</dir> to <service>'' @ service @ ''</service>\<newline>'')])
   \<and> (0 < length removes \<and> length removes \<le> 3 \<longrightarrow>
      removeMessages label service removes =
        map (\<lambda>r. Written ''convox'' (''remove: <dir>'' @ Path r @ ''</dir> from <dir>'' @ label
               @ ''</dir> on <service>'' @ service @ ''</service>\<newline>'')) removes)"
    by (auto simp: addMessages_def removeMessages_def)
  from m t q show ?thesis by blast
qed

theorem sync_messages_per_process_witness:
  "addMessages ''/app'' ''web'' [added ''main.go'', added ''go.mod'', added ''go.sum'',
       added ''README.md'']
     = [Written ''convox''
          ''sync: 4 files to <dir>/app</dir> on <service>web</service>\<newline>'']
   \<and> length (addMessages ''/app'' ''web'' [added ''main.go'', added ''go.mod'', added ''go.sum''])
       = 3
   \<and> removeMessages ''/app'' ''web'' [removed ''a'', removed ''b'', removed ''c'', removed ''d'']
     = [Written ''convox''
          ''remove: 4 files from <dir>/app</dir> to <service>web</service>\<newline>'']
   \<and> length (removeMessages ''/app'' ''web'' [removed ''a'', removed ''b'', removed ''c'']) = 3
   \<and> watchPath_tick samplePartition ''/app'' ''web'' \<lparr>Local = ''/src/app/'', Remote = ''/app''\<rparr>
          [added ''main.go'', removed ''a'', added ''go.mod'', removed ''b'', added ''go.sum'',
           removed ''c'', added ''README.md'', removed ''d'']
          (Inr [''p1'']) sampleWorld
     = ([Written ''convox''
           ''sync: 4 files to <dir>/app</dir> on <service>web</service>\<newline>'',
         Written ''convox''
           ''remove: 4 files from <dir>/app</dir> to <service>web</service>\<newline>''],
        Some [])"
proof -
  let ?bs = "\<lparr>Local = ''/src/app/'', Remote = ''/app''\<rparr>"
  let ?four = "[added ''main.go'', added ''go.mod'', added ''go.sum'', added ''README.md'']"
  let ?three = "[added ''main.go'', added ''go.mod'', added ''go.sum'']"
  let ?r4 = "[removed ''a'', removed ''b'', removed ''c'', removed ''d'']"
  let ?r3 = "[removed ''a'', removed ''b'', removed ''c'']"
  let ?chgs = "[added ''main.go'', removed ''a'', added ''go.mod'', removed ''b'',
      added ''go.sum'', removed ''c'', added ''README.md'', removed ''d'']"
  have d: "fmt_d (Suc (Suc (Suc (Suc 0)))) = ''4''"
    by code_simp
  have p: "samplePartition ?chgs = (?four, ?r4)"
    by code_simp
  have a: "fst (handleAdds sampleWorld ''p1'' (Remote ?bs) ?four) = Returns None"
    by code_simp
  have h: "\<forall>pid \<in> set [''p1'']. fst (handleAdds sampleWorld pid (Remote ?bs) ?four) = Returns None"
    using a by simp
  have r: "handleRemoves sampleWorld ''p1'' ?r4 = None"
    by code_simp
  have n: "reported ''sync add error: '' None = []" "reported ''sync remove error: '' None = []"
    by (simp_all add: reported_def)
  from sync_messages_per_process [where adds = ?four and removes = ?r4 and label = "''/app''"
      and service = "''web''" and part = samplePartition and chgs = ?chgs and ids = "[''p1'']"
      and w = sampleWorld and bs = ?bs and res = "\<lambda>pid. None"] p h d
  have 1: "addMessages ''/app'' ''web'' ?four
     = [Written ''convox''
          ''sync: 4 files to <dir>/app</dir> on <service>web</service>\<newline>'']"
    and 2: "removeMessages ''/app'' ''web'' ?r4
     = [Written ''convox''
          ''remove: 4 files from <dir>/app</dir> to <service>web</service>\<newline>'']"
    and 3: "watchPath_tick samplePartition ''/app'' ''web'' ?bs ?chgs (Inr [''p1'']) sampleWorld
     = (addMessages ''/app'' ''web'' ?four @ removeMessages ''/app'' ''web'' ?r4, Some [])"
    by (simp_all add: r n)
  from sync_messages_per_process [where adds = ?three and removes = ?r3 and label = "''/app''"
      and service = "''web''"]
  have 4: "length (addMessages ''/app'' ''web'' ?three) = 3"
    and 5: "length (removeMessages ''/app'' ''web'' ?r3) = 3"
    by simp_all
  from 1 2 3 4 5 show ?thesis by simp
qed

text \<open>
  C6 as stated fails: a flushed batch of four added files, pushed to the two processes of the
  service, writes the summary line twice.
\<close>

theorem watchPath_tick_two_processes:
  "watchPath_tick samplePartition ''/app'' ''web'' \<lparr>Local = ''/src/app/'', Remote = ''/app''\<rparr>
     [added ''main.go'', added ''go.mod'', added ''go.sum'', added ''README.md'']
     (Inr [''p1'', ''p2'']) sampleWorld
   = ([Written ''convox''
         ''sync: 4 files to <dir>/app</dir> on <service>web</service>\<newline>'',
       Written ''convox''
         ''sync: 4 files to <dir>/app</dir> on <service>web</service>\<newline>''],
      Some [])"
  by code_simp

subsection \<open>Log lines\<close>

text \<open>
  C5. A line that the pattern does not match adds nothing to what \<open>writeLogs\<close> writes, and
  neither does a line of kind \<^verbatim>\<open>service\<close> whose name is not in the set of services. The line
  \<^verbatim>\<open>2024-01-01T00:00:00Z service/web/i-123 Hello\x1b[1;1HWorld\<close> with the set \<open>{web}\<close> is
  written once, under the key \<^verbatim>\<open>web\<close>, as \<^verbatim>\<open>HelloWorld\<close>.
\<close>

theorem writeLogs_filters:
  "(reAppLog line = None \<longrightarrow>
      writeLogs services ((False, line) # rest) scanErr = writeLogs services rest scanErr)
   \<and> (reAppLog line = Some match \<and> match ! 3 = ''service'' \<and> \<not> interested services (match ! 4)
      \<longrightarrow> writeLogs services ((False, line) # rest) scanErr = writeLogs services rest scanErr)
   \<and> writeLogs [''web'' \<mapsto> True]
        [(False, ''2024-01-01T00:00:00Z service/web/i-123 Hello'' @ [CHR 0x1B] @ ''[1;1HWorld'')]
        None
      = [Written ''web'' ''HelloWorld\<newline>'']"
proof -
  have 1: "reAppLog line = None \<longrightarrow>
      writeLogs services ((False, line) # rest) scanErr = writeLogs services rest scanErr"
    by (simp add: writeLogs_line_def)
  have 2: "reAppLog line = Some match \<and> match ! 3 = ''service'' \<and> \<not> interested services (match ! 4)
      \<longrightarrow> writeLogs services ((False, line) # rest) scanErr = writeLogs services rest scanErr"
    by (simp add: writeLogs_line_def)
  have 3: "writeLogs [''web'' \<mapsto> True]
        [(False, ''2024-01-01T00:00:00Z service/web/i-123 Hello'' @ [CHR 0x1B] @ ''[1;1HWorld'')]
        None
      = [Written ''web'' ''HelloWorld\<newline>'']"
    by code_simp
  from 1 2 3 show ?thesis by blast
qed

theorem writeLogs_filters_witness:
  "reAppLog ''panic: runtime error'' = None
   \<and> writeLogs [''web'' \<mapsto> True] [(False, ''panic: runtime error'')] None = []
   \<and> reAppLog ''2024-01-01T00:00:00Z service/db/i-456 ready''
       = Some [''2024-01-01T00:00:00Z service/db/i-456 ready'', ''2024-01-01'', ''00:00:00'',
               ''service'', ''db'', ''i-456'', ''ready'']
   \<and> \<not> interested [''web'' \<mapsto> True] ''db''
   \<and> writeLogs [''web'' \<mapsto> True] [(False, ''2024-01-01T00:00:00Z service/db/i-456 ready'')] None
       = []"
proof -
  have a: "reAppLog ''panic: runtime error'' = None"
    by code_simp
  have b: "reAppLog ''2024-01-01T00:00:00Z service/db/i-456 ready''
       = Some [''2024-01-01T00:00:00Z service/db/i-456 ready'', ''2024-01-01'', ''00:00:00'',
               ''service'', ''db'', ''i-456'', ''ready'']"
    by code_simp
  have c: "\<not> interested [''web'' \<mapsto> True] ''db''"
    by (simp add: interested_def)
  from writeLogs_filters [where line = "''panic: runtime error''" and rest = "[]"
      and scanErr = None and services = "[''web'' \<mapsto> True]"] a
  have 1: "writeLogs [''web'' \<mapsto> True] [(False, ''panic: runtime error'')] None = []"
    by simp
  from writeLogs_filters [where line = "''2024-01-01T00:00:00Z service/db/i-456 ready''"
      and rest = "[]" and scanErr = None and services = "[''web'' \<mapsto> True]"
      and match = "[''2024-01-01T00:00:00Z service/db/i-456 ready'', ''2024-01-01'',
               ''00:00:00'', ''service'', ''db'', ''i-456'', ''ready'']"] b c
  have 2: "writeLogs [''web'' \<mapsto> True]
      [(False, ''2024-01-01T00:00:00Z service/db/i-456 ready'')] None = []"
    by simp
  from a b c 1 2 show ?thesis by blast
qed

text \<open>
  C10. A line that the pattern matches with a kind that is neither \<^verbatim>\<open>service\<close> nor \<^verbatim>\<open>system\<close>
  adds nothing to what \<open>writeLogs\<close> writes, whatever the set of services.
\<close>

theorem writeLogs_other_kind:
  assumes "reAppLog line = Some match"
    and "match ! 3 \<noteq> ''service''"
    and "match ! 3 \<noteq> ''system''"
  shows "writeLogs services ((False, line) # rest) scanErr = writeLogs services rest scanErr"
  using assms by (simp add: writeLogs_line_def)

theorem writeLogs_other_kind_witness:
  "reAppLog ''2024-01-01T00:00:00Z build/web/i-123 compiling''
     = Some [''2024-01-01T00:00:00Z build/web/i-123 compiling'', ''2024-01-01'', ''00:00:00'',
             ''build'', ''web'', ''i-123'', ''compiling'']
   \<and> writeLogs [''web'' \<mapsto> True] [(False, ''2024-01-01T00:00:00Z build/web/i-123 compiling'')]
        None = []"
proof -
  have a: "reAppLog ''2024-01-01T00:00:00Z build/web/i-123 compiling''
     = Some [''2024-01-01T00:00:00Z build/web/i-123 compiling'', ''2024-01-01'', ''00:00:00'',
             ''build'', ''web'', ''i-123'', ''compiling'']"
    by code_simp
  from writeLogs_other_kind [OF a, where rest = "[]" and scanErr = None
      and services = "[''web'' \<mapsto> True]"]
  have "writeLogs [''web'' \<mapsto> True]
      [(False, ''2024-01-01T00:00:00Z build/web/i-123 compiling'')] None = []"
    by simp
  with a show ?thesis by blast
qed

end
